theory Spec2Isabelle
  imports Main
begin

section \<open>Data model of the photo editor (App component)\<close>

text \<open>
  \<^verbatim>\<open>type Mode = 'edit' | 'analyze'\<close>,
  \<^verbatim>\<open>interface ImageFile { url: string; file: File }\<close>,
  \<^verbatim>\<open>interface EditedImageResult { originalUrl: string; editedUrl: string | null; error?: string }\<close>.
  Of the browser's File object the component reads the name and the MIME type only; the
  field \<^verbatim>\<open>file\<close> of an image is \<open>sourceFile\<close> here.
  A field that is null or undefined is \<open>None\<close>.
\<close>

datatype mode = Edit | Analyze

record File =
  name :: string
  type :: string

record ImageFile =
  url :: string
  sourceFile :: File

record EditedImageResult =
  originalUrl :: string
  editedUrl :: "string option"
  error :: "string option"

record Progress =
  current :: nat
  total :: nat

text \<open>
  The eight \<^verbatim>\<open>useState\<close> cells of \<^verbatim>\<open>App\<close>. The cell the source calls
  \<^verbatim>\<open>error\<close> is \<open>errorState\<close> here, since \<open>error\<close> is already the field of
  an edit result.
\<close>

record app_state =
  mode :: mode
  originalImages :: "ImageFile list"
  editedImages :: "EditedImageResult list"
  analysisResult :: "string option"
  prompt :: string
  isLoading :: bool
  errorState :: "string option"
  progress :: "Progress option"

subsection \<open>The world outside the component\<close>

text \<open>
  The SDK (\<^verbatim>\<open>@google/genai\<close>) is not part of the repository. Of its response the
  service reads \<^verbatim>\<open>candidates?.[0]?.content?.parts\<close>, of each part
  \<^verbatim>\<open>inlineData?.data\<close>, and \<^verbatim>\<open>response.text\<close>; every link of the chain may
  be missing, and \<^verbatim>\<open>response.text\<close> is undefined for a response without a text part.
\<close>

record InlineData =
  data :: "string option"

record Part =
  inlineData :: "InlineData option"

record Content =
  parts :: "Part list option"

record Candidate =
  content :: "Content option"

record GenerateContentResponse =
  candidates :: "Candidate list option"
  responseText :: "string option"

text \<open>What a \<^verbatim>\<open>catch (err)\<close> receives: an \<^verbatim>\<open>Error\<close> with its message, or any other value.\<close>

datatype thrown = Error string | NonError

text \<open>
  One use of the SDK by a service function: constructing the client
  (\<^verbatim>\<open>new GoogleGenAI\<close>, outside the service's \<^verbatim>\<open>try\<close>) throws, or
  \<^verbatim>\<open>generateContent\<close> rejects, or it resolves with a response.
\<close>

datatype sdk_outcome =
  ConstructorThrows thrown
| GenerateContentThrows thrown
| Resolves GenerateContentResponse

text \<open>
  The two service functions of \<^verbatim>\<open>services/geminiService.ts\<close>:
  \<open>EditImage\<close> asks model \<^verbatim>\<open>gemini-2.5-flash-image\<close> for an image,
  \<open>AnalyzeImage\<close> asks model \<^verbatim>\<open>gemini-2.5-flash\<close> for text.
\<close>

datatype service = EditImage | AnalyzeImage

text \<open>The \<^verbatim>\<open>console.error\<close> call sites, in source order.\<close>

datatype log_entry =
  GeminiEditingError
| GeminiAnalysisError
| FailedToLoad
| FailedToProcessImage nat
| FailedToSave

text \<open>
  The trace of what the component does to the outside, oldest first. A service call is
  awaited, so React renders at that point: the entry keeps the arguments of the call and
  the state that is on screen while the call is in flight.
\<close>

datatype effect =
  ServiceCall service "string option" string string app_state
| SetItem string bool
| RemoveItem
| ConsoleError log_entry

text \<open>
  \<open>storage\<close> is the value of \<^verbatim>\<open>localStorage\<close> under the one key
  \<^verbatim>\<open>LOCAL_STORAGE_KEY = 'ai-photo-editor-last-session'\<close>.
\<close>

record world =
  app :: app_state
  storage :: "string option"
  effects :: "effect list"

text \<open>
  \<^verbatim>\<open>JSON.parse\<close> is used only through \<^verbatim>\<open>Array.isArray\<close> and, for an array,
  through the unchecked annotation \<^verbatim>\<open>EditedImageResult[]\<close>; \<open>parsed\<close> keeps that
  view of the parsed value.
\<close>

datatype parsed = NotArray | IsArray "EditedImageResult list"

text \<open>
  The platform the component runs on. \<open>genai\<close> answers a use of the SDK from the trace
  so far, the service and its three arguments. \<open>JSON_parse\<close> is \<open>None\<close> where
  \<^verbatim>\<open>JSON.parse\<close> throws. \<open>setItem_throws\<close> says for which values
  \<^verbatim>\<open>localStorage.setItem\<close> throws (storage quota).
\<close>

record platform =
  genai :: "effect list \<Rightarrow> service \<Rightarrow> string option \<Rightarrow> string \<Rightarrow> string \<Rightarrow> sdk_outcome"
  JSON_parse :: "string \<Rightarrow> parsed option"
  JSON_stringify :: "EditedImageResult list \<Rightarrow> string"
  setItem_throws :: "string \<Rightarrow> bool"

section \<open>JavaScript helpers\<close>

text \<open>\<^verbatim>\<open>s.split(c)\<close> for a one-character separator; \<^verbatim>\<open>''.split(',')\<close> is \<^verbatim>\<open>['']\<close>.\<close>

primrec split :: "char \<Rightarrow> string \<Rightarrow> string list" where
  "split c [] = [[]]"
| "split c (x # xs) =
     (if x = c then [] # split c xs
      else (case split c xs of [] \<Rightarrow> [[x]] | y # ys \<Rightarrow> (x # y) # ys))"

text \<open>\<^verbatim>\<open>xs[i]\<close>: undefined out of range.\<close>

definition at :: "'a list \<Rightarrow> nat \<Rightarrow> 'a option" where
  "at xs i = (if i < length xs then Some (xs ! i) else None)"

text \<open>\<^verbatim>\<open>xs.filter((_, index) => index !== k)\<close>\<close>

definition filter_index_neq :: "nat \<Rightarrow> 'a list \<Rightarrow> 'a list" where
  "filter_index_neq k xs = map fst (filter (\<lambda>(x, index). index \<noteq> k) (zip xs [0..<length xs]))"

section \<open>State setters and storage operations\<close>

definition setMode :: "mode \<Rightarrow> world \<Rightarrow> world" where
  "setMode v w = w\<lparr>app := (app w)\<lparr>mode := v\<rparr>\<rparr>"

definition setOriginalImages :: "ImageFile list \<Rightarrow> world \<Rightarrow> world" where
  "setOriginalImages v w = w\<lparr>app := (app w)\<lparr>originalImages := v\<rparr>\<rparr>"

definition setEditedImages :: "EditedImageResult list \<Rightarrow> world \<Rightarrow> world" where
  "setEditedImages v w = w\<lparr>app := (app w)\<lparr>editedImages := v\<rparr>\<rparr>"

definition setAnalysisResult :: "string option \<Rightarrow> world \<Rightarrow> world" where
  "setAnalysisResult v w = w\<lparr>app := (app w)\<lparr>analysisResult := v\<rparr>\<rparr>"

definition setPrompt :: "string \<Rightarrow> world \<Rightarrow> world" where
  "setPrompt v w = w\<lparr>app := (app w)\<lparr>prompt := v\<rparr>\<rparr>"

definition setIsLoading :: "bool \<Rightarrow> world \<Rightarrow> world" where
  "setIsLoading v w = w\<lparr>app := (app w)\<lparr>isLoading := v\<rparr>\<rparr>"

definition setError :: "string option \<Rightarrow> world \<Rightarrow> world" where
  "setError v w = w\<lparr>app := (app w)\<lparr>errorState := v\<rparr>\<rparr>"

definition setProgress :: "Progress option \<Rightarrow> world \<Rightarrow> world" where
  "setProgress v w = w\<lparr>app := (app w)\<lparr>progress := v\<rparr>\<rparr>"

definition console_error :: "log_entry \<Rightarrow> world \<Rightarrow> world" where
  "console_error e w = w\<lparr>effects := effects w @ [ConsoleError e]\<rparr>"

definition removeItem :: "world \<Rightarrow> world" where
  "removeItem w = w\<lparr>storage := None, effects := effects w @ [RemoveItem]\<rparr>"

text \<open>\<^verbatim>\<open>localStorage.setItem\<close>: the flag is False when it throws; the slot is then unchanged.\<close>

definition setItem :: "platform \<Rightarrow> string \<Rightarrow> world \<Rightarrow> bool \<times> world" where
  "setItem env v w =
     (if setItem_throws env v then (False, w\<lparr>effects := effects w @ [SetItem v False]\<rparr>)
      else (True, w\<lparr>storage := Some v, effects := effects w @ [SetItem v True]\<rparr>))"

section \<open>services/geminiService.ts\<close>

definition edit_failure_message :: string where
  "edit_failure_message =
     ''Failed to communicate with the AI model. Please check your API key and network connection.''"

definition analysis_failure_message :: string where
  "analysis_failure_message =
     ''Failed to communicate with the AI model for analysis. Please check your API key and network connection.''"

text \<open>\<^verbatim>\<open>part.inlineData?.data\<close>, truthy: present and not the empty string.\<close>

definition part_data :: "Part \<Rightarrow> string option" where
  "part_data p =
     (case inlineData p of None \<Rightarrow> None
      | Some b \<Rightarrow> (case data b of None \<Rightarrow> None | Some d \<Rightarrow> if d = [] then None else Some d))"

text \<open>The \<^verbatim>\<open>for (const part of ...)\<close> loop: the data of the first part that has some.\<close>

fun first_inline_data :: "Part list \<Rightarrow> string option" where
  "first_inline_data [] = None"
| "first_inline_data (p # ps) =
     (case part_data p of Some d \<Rightarrow> Some d | None \<Rightarrow> first_inline_data ps)"

text \<open>\<^verbatim>\<open>response.candidates?.[0]?.content?.parts\<close>\<close>

definition response_parts :: "GenerateContentResponse \<Rightarrow> Part list option" where
  "response_parts r =
     (case candidates r of None \<Rightarrow> None
      | Some cs \<Rightarrow> (case at cs 0 of None \<Rightarrow> None
         | Some c \<Rightarrow> (case content c of None \<Rightarrow> None | Some ct \<Rightarrow> parts ct)))"

text \<open>
  \<^verbatim>\<open>editImageWithPrompt\<close>. A throw of the constructor leaves the function as it is;
  inside the \<^verbatim>\<open>try\<close>, a rejected call and the function's own
  \<^verbatim>\<open>throw new Error("No image was generated ...")\<close> both reach the \<^verbatim>\<open>catch\<close>, which
  logs and throws the fixed message. \<open>Inl\<close> is the rejected promise.
\<close>

definition editImageWithPrompt ::
  "platform \<Rightarrow> string option \<Rightarrow> string \<Rightarrow> string \<Rightarrow> world \<Rightarrow> (thrown + string) \<times> world" where
  "editImageWithPrompt env base64ImageData mimeType p w =
     (let w1 = w\<lparr>effects := effects w @ [ServiceCall EditImage base64ImageData mimeType p (app w)]\<rparr>
      in case genai env (effects w) EditImage base64ImageData mimeType p of
           ConstructorThrows t \<Rightarrow> (Inl t, w1)
         | GenerateContentThrows t \<Rightarrow>
             (Inl (Error edit_failure_message), console_error GeminiEditingError w1)
         | Resolves response \<Rightarrow>
             (case (case response_parts response of None \<Rightarrow> None
                    | Some ps \<Rightarrow> first_inline_data ps) of
                Some d \<Rightarrow> (Inr d, w1)
              | None \<Rightarrow> (Inl (Error edit_failure_message), console_error GeminiEditingError w1)))"

text \<open>
  \<^verbatim>\<open>analyzeImageWithPrompt\<close>: \<^verbatim>\<open>return response.text\<close>, unchecked, so the
  promise may resolve with undefined (\<open>Inr None\<close>).
\<close>

definition analyzeImageWithPrompt ::
  "platform \<Rightarrow> string option \<Rightarrow> string \<Rightarrow> string \<Rightarrow> world
     \<Rightarrow> (thrown + string option) \<times> world" where
  "analyzeImageWithPrompt env base64ImageData mimeType p w =
     (let w1 = w\<lparr>effects := effects w @ [ServiceCall AnalyzeImage base64ImageData mimeType p (app w)]\<rparr>
      in case genai env (effects w) AnalyzeImage base64ImageData mimeType p of
           ConstructorThrows t \<Rightarrow> (Inl t, w1)
         | GenerateContentThrows t \<Rightarrow>
             (Inl (Error analysis_failure_message), console_error GeminiAnalysisError w1)
         | Resolves response \<Rightarrow> (Inr (responseText response), w1))"

section \<open>The App component's handlers\<close>

text \<open>The \<^verbatim>\<open>useState\<close> initial values, and the world a page load starts in.\<close>

definition initial_app :: app_state where
  "initial_app =
     \<lparr>mode = Edit, originalImages = [], editedImages = [], analysisResult = None,
      prompt = [], isLoading = False, errorState = None, progress = None\<rparr>"

definition initial_world :: "string option \<Rightarrow> world" where
  "initial_world stored = \<lparr>app = initial_app, storage = stored, effects = []\<rparr>"

text \<open>
  The mount effect. \<^verbatim>\<open>getItem\<close> gives null for a missing key, and
  \<^verbatim>\<open>if (savedData)\<close> is also false for the empty string. Only a throw reaches the
  \<^verbatim>\<open>catch\<close> with its \<^verbatim>\<open>removeItem\<close>.
\<close>

definition loadSession :: "platform \<Rightarrow> world \<Rightarrow> world" where
  "loadSession env w =
     (case storage w of
        None \<Rightarrow> w
      | Some savedData \<Rightarrow>
          if savedData = [] then w
          else (case JSON_parse env savedData of
                  None \<Rightarrow> removeItem (console_error FailedToLoad w)
                | Some NotArray \<Rightarrow> w
                | Some (IsArray parsedImages) \<Rightarrow> setEditedImages parsedImages (setMode Edit w)))"

definition handleModeChange :: "mode \<Rightarrow> world \<Rightarrow> world" where
  "handleModeChange newMode w =
     (let w1 = setProgress None (setError None (setPrompt [] (setAnalysisResult None
                 (setEditedImages [] (setOriginalImages [] (setMode newMode w))))))
      in if newMode = Analyze then removeItem w1 else w1)"

definition handleImagesSelect :: "ImageFile list \<Rightarrow> world \<Rightarrow> world" where
  "handleImagesSelect newFiles w =
     (let w1 = (if mode (app w) = Analyze then setOriginalImages (take 1 newFiles) w
                else setOriginalImages (originalImages (app w) @ newFiles) w)
      in removeItem (setError None (setAnalysisResult None (setEditedImages [] w1))))"

definition handleRemoveImage :: "nat \<Rightarrow> world \<Rightarrow> world" where
  "handleRemoveImage indexToRemove w =
     removeItem (setAnalysisResult None (setEditedImages []
       (setOriginalImages (filter_index_neq indexToRemove (originalImages (app w))) w)))"

definition handleClearImages :: "world \<Rightarrow> world" where
  "handleClearImages w =
     removeItem (setAnalysisResult None (setEditedImages [] (setOriginalImages [] w)))"

subsection \<open>handleGenerate\<close>

definition precondition_message :: string where
  "precondition_message = ''Please upload an image and provide a prompt.''"

text \<open>
  One pass of the body of the \<^verbatim>\<open>for\<close> loop, for the image at index \<open>i\<close>:
  the \<^verbatim>\<open>try\<close> pushes a result with the edited data URL, the \<^verbatim>\<open>catch\<close> logs and
  pushes a result with the message, the \<^verbatim>\<open>finally\<close> publishes progress and a copy
  of the results.
\<close>

definition edit_item ::
  "platform \<Rightarrow> ImageFile list \<Rightarrow> string \<Rightarrow> nat \<Rightarrow> EditedImageResult list \<Rightarrow> world
     \<Rightarrow> EditedImageResult list \<times> world" where
  "edit_item env images p i results w =
     (let image = images ! i;
          base64Data = at (split CHR '','' (url image)) 1;
          mimeType = type (sourceFile image);
          (r, w1) = editImageWithPrompt env base64Data mimeType p w;
          (results', w2) =
            (case r of
               Inr generatedBase64 \<Rightarrow>
                 (results @ [\<lparr>originalUrl = url image,
                              editedUrl = Some (''data:'' @ mimeType @ '';base64,'' @ generatedBase64),
                              error = None\<rparr>], w1)
             | Inl err \<Rightarrow>
                 (results @ [\<lparr>originalUrl = url image, editedUrl = None,
                              error = Some (case err of Error m \<Rightarrow> m
                                            | NonError \<Rightarrow> ''An unknown error occurred.'')\<rparr>],
                  console_error (FailedToProcessImage (i + 1)) w1))
      in (results',
          setEditedImages results' (setProgress (Some \<lparr>current = i + 1, total = length images\<rparr>) w2)))"

text \<open>\<^verbatim>\<open>for (let i = 0; i < originalImages.length; i++)\<close>, from index \<open>i\<close> on.\<close>

function edit_loop ::
  "platform \<Rightarrow> ImageFile list \<Rightarrow> string \<Rightarrow> nat \<Rightarrow> EditedImageResult list \<Rightarrow> world
     \<Rightarrow> EditedImageResult list \<times> world" where
  "edit_loop env images p i results w =
     (if i < length images
      then (case edit_item env images p i results w of
              (results', w') \<Rightarrow> edit_loop env images p (i + 1) results' w')
      else (results, w))"
  by pat_completeness auto
termination
  by (relation "measure (\<lambda>(env, images, p, i, results, w). length images - i)") auto

declare edit_loop.simps [simp del]

text \<open>
  \<^verbatim>\<open>handleGenerate\<close>. The selection, the prompt and the mode are the ones of the
  render that created the callback, so they are read once, from the state at the call.
  A run is taken as a whole: no other event of the page comes between its service calls.
\<close>

definition handleGenerate :: "platform \<Rightarrow> world \<Rightarrow> world" where
  "handleGenerate env w =
     (let images = originalImages (app w); p = prompt (app w); m = mode (app w)
      in if length images = 0 \<or> p = [] then setError (Some precondition_message) w
         else
           let w1 = setProgress (Some \<lparr>current = 0, total = length images\<rparr>)
                      (setAnalysisResult None (setEditedImages []
                        (setError None (setIsLoading True w))));
               w2 = (if m = Edit then
                       (case edit_loop env images p 0 [] w1 of
                          (results, w') \<Rightarrow>
                            if length results > 0 then
                              (case setItem env (JSON_stringify env results) w' of
                                 (True, w'') \<Rightarrow> w''
                               | (False, w'') \<Rightarrow> console_error FailedToSave w'')
                            else w')
                     else
                       (let image = images ! 0;
                            base64Data = at (split CHR '','' (url image)) 1;
                            mimeType = type (sourceFile image)
                        in case analyzeImageWithPrompt env base64Data mimeType p w1 of
                             (Inr textResult, w') \<Rightarrow> setAnalysisResult textResult w'
                           | (Inl err, w') \<Rightarrow>
                               setError (Some (case err of Error m \<Rightarrow> m
                                  | NonError \<Rightarrow> ''An unknown error occurred during analysis.'')) w'))
           in setIsLoading False w2)"

subsection \<open>The events of the page\<close>

text \<open>
  The wiring of \<^verbatim>\<open>App\<close>: the mount effect, the props handed to
  \<^verbatim>\<open>ControlPanel\<close> (\<^verbatim>\<open>setMode={handleModeChange}\<close>, \<^verbatim>\<open>setPrompt\<close>,
  \<^verbatim>\<open>onGenerate\<close>, ...), \<^verbatim>\<open>handleFileChange\<close>, which passes on a non-empty file
  list only, and the banner's close button (\<^verbatim>\<open>setError(null)\<close>). The
  \<^verbatim>\<open>disabled\<close> attributes only take events away, so every handler is taken as
  callable in every state.
\<close>

datatype action =
  Mount
| ModeChange mode
| FileChange "ImageFile list"
| RemoveImage nat
| ClearImages
| PromptChange string
| Generate
| DismissError

fun step :: "platform \<Rightarrow> action \<Rightarrow> world \<Rightarrow> world" where
  "step env Mount w = loadSession env w"
| "step env (ModeChange newMode) w = handleModeChange newMode w"
| "step env (FileChange files) w = (if length files > 0 then handleImagesSelect files w else w)"
| "step env (RemoveImage indexToRemove) w = handleRemoveImage indexToRemove w"
| "step env ClearImages w = handleClearImages w"
| "step env (PromptChange v) w = setPrompt v w"
| "step env Generate w = handleGenerate env w"
| "step env DismissError w = setError None w"

section \<open>Reading the trace\<close>

text \<open>What a handler added to the trace: the trace only grows, at its end.\<close>

definition new_effects :: "world \<Rightarrow> world \<Rightarrow> effect list" where
  "new_effects w w' = drop (length (effects w)) (effects w')"

text \<open>The states that were on screen during the service calls of a trace, in order.\<close>

fun screen_of :: "effect \<Rightarrow> app_state list" where
  "screen_of (ServiceCall s b m p a) = [a]"
| "screen_of (SetItem v ok) = []"
| "screen_of RemoveItem = []"
| "screen_of (ConsoleError e) = []"

definition screens :: "effect list \<Rightarrow> app_state list" where
  "screens es = concat (map screen_of es)"

text \<open>The service calls of a trace, with their arguments, in order.\<close>

fun call_of :: "effect \<Rightarrow> (service \<times> string option \<times> string \<times> string) list" where
  "call_of (ServiceCall s b m p a) = [(s, b, m, p)]"
| "call_of (SetItem v ok) = []"
| "call_of RemoveItem = []"
| "call_of (ConsoleError e) = []"

definition service_calls :: "effect list \<Rightarrow> (service \<times> string option \<times> string \<times> string) list" where
  "service_calls es = concat (map call_of es)"

text \<open>The \<^verbatim>\<open>localStorage.setItem\<close> calls of a trace: the value and whether it was stored.\<close>

fun write_of :: "effect \<Rightarrow> (string \<times> bool) list" where
  "write_of (ServiceCall s b m p a) = []"
| "write_of (SetItem v ok) = [(v, ok)]"
| "write_of RemoveItem = []"
| "write_of (ConsoleError e) = []"

definition storage_writes :: "effect list \<Rightarrow> (string \<times> bool) list" where
  "storage_writes es = concat (map write_of es)"

text \<open>
  The progress values a run shows: the one on screen during each service call, then the
  one it ends with.
\<close>

definition progress_trace :: "world \<Rightarrow> world \<Rightarrow> Progress option list" where
  "progress_trace w w' = map progress (screens (new_effects w w')) @ [progress (app w')]"

text \<open>An edit result has its edited image or its error message, one of the two.\<close>

definition exactly_one :: "EditedImageResult \<Rightarrow> bool" where
  "exactly_one r = ((editedUrl r \<noteq> None) \<noteq> (error r \<noteq> None))"

text \<open>The call the edit loop makes for an image: the text after the first comma of the data URL.\<close>

definition edit_request :: "string \<Rightarrow> ImageFile \<Rightarrow> service \<times> string option \<times> string \<times> string" where
  "edit_request p img = (EditImage, at (split CHR '','' (url img)) 1, type (sourceFile img), p)"


text \<open>Whether a stored text parses as an array.\<close>

definition parses_as_array :: "platform \<Rightarrow> string \<Rightarrow> bool" where
  "parses_as_array env v =
     (case JSON_parse env v of None \<Rightarrow> False | Some NotArray \<Rightarrow> False | Some (IsArray xs) \<Rightarrow> True)"

section \<open>Sample inputs\<close>

text \<open>
  A response that carries an image in its second part, and a platform: the analysis
  answers with a sentence, the edit of the image with payload \<^verbatim>\<open>BBBB\<close> is rejected,
  every other edit returns the payload \<^verbatim>\<open>XXXX\<close>; \<^verbatim>\<open>JSON.parse\<close> is given on
  the texts \<^verbatim>\<open>[]\<close> and \<^verbatim>\<open>{}\<close> and throws elsewhere; \<^verbatim>\<open>setItem\<close> succeeds.
\<close>

definition image_response :: "string \<Rightarrow> GenerateContentResponse" where
  "image_response d =
     \<lparr>candidates = Some [\<lparr>content = Some \<lparr>parts = Some
        [\<lparr>inlineData = None\<rparr>, \<lparr>inlineData = Some \<lparr>data = Some d\<rparr>\<rparr>]\<rparr>\<rparr>],
      responseText = None\<rparr>"

definition sample_platform :: platform where
  "sample_platform =
     \<lparr>genai = (\<lambda>h s b m p.
         if s = AnalyzeImage
         then Resolves \<lparr>candidates = None,
                        responseText = Some ''A red bicycle leaning against a brick wall.''\<rparr>
         else if b = Some ''BBBB'' then GenerateContentThrows (Error ''rate limited'')
         else Resolves (image_response ''XXXX'')),
      JSON_parse = (\<lambda>s. if s = ''[]'' then Some (IsArray [])
                         else if s = ''{}'' then Some NotArray else None),
      JSON_stringify = (\<lambda>rs. ''[<'' @ concat (map originalUrl rs) @ ''>]''),
      setItem_throws = (\<lambda>v. False)\<rparr>"

text \<open>The same platform with a full storage, and one whose service always fails.\<close>

definition full_storage_platform :: platform where
  "full_storage_platform = sample_platform\<lparr>setItem_throws := (\<lambda>v. True)\<rparr>"


definition offline_platform :: platform where
  "offline_platform = sample_platform\<lparr>genai := (\<lambda>h s b m p. GenerateContentThrows NonError)\<rparr>"

definition png :: "string \<Rightarrow> ImageFile" where
  "png b = \<lparr>url = ''data:image/png;base64,'' @ b,
            sourceFile = \<lparr>name = ''photo.png'', type = ''image/png''\<rparr>\<rparr>"

definition edit_world :: world where
  "edit_world =
     \<lparr>app = initial_app\<lparr>originalImages := [png ''AAAA'', png ''BBBB'', png ''CCCC''],
                          prompt := ''Remove the background''\<rparr>,
      storage = None, effects = []\<rparr>"

definition analyze_world :: world where
  "analyze_world =
     \<lparr>app = initial_app\<lparr>mode := Analyze, originalImages := [png ''AAAA''],
                          prompt := ''Describe this image in detail''\<rparr>,
      storage = None, effects = []\<rparr>"

text \<open>A world with no image selected but stale results, a banner and a snapshot.\<close>

definition stale_world :: world where
  "stale_world =
     \<lparr>app = initial_app\<lparr>editedImages := [\<lparr>originalUrl = ''data:,'', editedUrl = None,
                                             error = Some ''old''\<rparr>],
                          analysisResult := Some ''old text'', prompt := ''p'',
                          errorState := Some ''old banner''\<rparr>,
      storage = Some ''[]'', effects = []\<rparr>"

text \<open>The stale world once an image has been selected by hand: a second run can start.\<close>

definition rerun_world :: world where
  "rerun_world = stale_world\<lparr>app := (app stale_world)\<lparr>originalImages := [png ''AAAA'']\<rparr>\<rparr>"

section \<open>Lemmas on the trace and on the edit loop\<close>

lemmas setters =
  setMode_def setOriginalImages_def setEditedImages_def setAnalysisResult_def setPrompt_def
  setIsLoading_def setError_def setProgress_def console_error_def removeItem_def

lemma editImageWithPrompt_shape:
  "\<exists>r logs. editImageWithPrompt env b m p w =
       (r, w\<lparr>effects := effects w @ ServiceCall EditImage b m p (app w) # map ConsoleError logs\<rparr>)"
proof (cases "genai env (effects w) EditImage b m p")
  case (ConstructorThrows t)
  then have "editImageWithPrompt env b m p w =
       (Inl t, w\<lparr>effects := effects w @ ServiceCall EditImage b m p (app w) # map ConsoleError []\<rparr>)"
    by (simp add: editImageWithPrompt_def)
  then show ?thesis by blast
next
  case (GenerateContentThrows t)
  then have "editImageWithPrompt env b m p w =
       (Inl (Error edit_failure_message),
        w\<lparr>effects := effects w @ ServiceCall EditImage b m p (app w) # map ConsoleError [GeminiEditingError]\<rparr>)"
    by (simp add: editImageWithPrompt_def console_error_def)
  then show ?thesis by blast
next
  case (Resolves response)
  show ?thesis
  proof (cases "case response_parts response of None \<Rightarrow> None | Some ps \<Rightarrow> first_inline_data ps")
    case None
    with Resolves have "editImageWithPrompt env b m p w =
       (Inl (Error edit_failure_message),
        w\<lparr>effects := effects w @ ServiceCall EditImage b m p (app w) # map ConsoleError [GeminiEditingError]\<rparr>)"
      by (simp add: editImageWithPrompt_def console_error_def)
    then show ?thesis by blast
  next
    case (Some d)
    with Resolves have "editImageWithPrompt env b m p w =
       (Inr d, w\<lparr>effects := effects w @ ServiceCall EditImage b m p (app w) # map ConsoleError []\<rparr>)"
      by (simp add: editImageWithPrompt_def)
    then show ?thesis by blast
  qed
qed

lemma edit_item_shape:
  "\<exists>r logs. edit_item env images p i results w =
       (results @ [r],
        \<lparr>app = (app w)\<lparr>editedImages := results @ [r],
                        progress := Some \<lparr>current = i + 1, total = length images\<rparr>\<rparr>,
         storage = storage w,
         effects = effects w @ ServiceCall EditImage (at (split CHR '','' (url (images ! i))) 1)
                     (type (sourceFile (images ! i))) p (app w) # map ConsoleError logs\<rparr>)
     \<and> originalUrl r = url (images ! i) \<and> exactly_one r"
proof -
  let ?b = "at (split CHR '','' (url (images ! i))) 1" and ?m = "type (sourceFile (images ! i))"
  obtain r0 logs where e: "editImageWithPrompt env ?b ?m p w =
       (r0, w\<lparr>effects := effects w @ ServiceCall EditImage ?b ?m p (app w) # map ConsoleError logs\<rparr>)"
    using editImageWithPrompt_shape by blast
  show ?thesis
  proof (cases r0)
    case (Inl err)
    let ?r = "\<lparr>originalUrl = url (images ! i), editedUrl = None,
               error = Some (case err of Error m \<Rightarrow> m | NonError \<Rightarrow> ''An unknown error occurred.'')\<rparr>"
    have "edit_item env images p i results w =
       (results @ [?r],
        \<lparr>app = (app w)\<lparr>editedImages := results @ [?r],
                        progress := Some \<lparr>current = i + 1, total = length images\<rparr>\<rparr>,
         storage = storage w,
         effects = effects w @ ServiceCall EditImage ?b ?m p (app w)
                     # map ConsoleError (logs @ [FailedToProcessImage (i + 1)])\<rparr>)"
      unfolding edit_item_def Let_def e Inl by (simp add: setters)
    moreover have "originalUrl ?r = url (images ! i) \<and> exactly_one ?r"
      by (simp add: exactly_one_def)
    ultimately show ?thesis by blast
  next
    case (Inr d)
    let ?r = "\<lparr>originalUrl = url (images ! i),
               editedUrl = Some (''data:'' @ ?m @ '';base64,'' @ d), error = None\<rparr>"
    have "edit_item env images p i results w =
       (results @ [?r],
        \<lparr>app = (app w)\<lparr>editedImages := results @ [?r],
                        progress := Some \<lparr>current = i + 1, total = length images\<rparr>\<rparr>,
         storage = storage w,
         effects = effects w @ ServiceCall EditImage ?b ?m p (app w) # map ConsoleError logs\<rparr>)"
      unfolding edit_item_def Let_def e Inr by (simp add: setters)
    moreover have "originalUrl ?r = url (images ! i) \<and> exactly_one ?r"
      by (simp add: exactly_one_def)
    ultimately show ?thesis by blast
  qed
qed


lemma new_effects_append: "effects w' = effects w @ es \<Longrightarrow> new_effects w w' = es"
  by (simp add: new_effects_def)

lemma new_effects_same [simp]: "effects w' = effects w \<Longrightarrow> new_effects w w' = []"
  by (simp add: new_effects_def)

lemma trace_append [simp]:
  "screens (es @ fs) = screens es @ screens fs"
  "service_calls (es @ fs) = service_calls es @ service_calls fs"
  "storage_writes (es @ fs) = storage_writes es @ storage_writes fs"
  by (simp_all add: screens_def service_calls_def storage_writes_def)

lemma screens_simps [simp]:
  "screens [] = []"
  "screens (ServiceCall s b m p a # es) = a # screens es"
  "screens (map ConsoleError logs) = []"
  "screens (SetItem v ok # es) = screens es"
  "screens (ConsoleError e # es) = screens es"
  "screens (RemoveItem # es) = screens es"
  by (induction logs) (simp_all add: screens_def)

lemma service_calls_simps [simp]:
  "service_calls [] = []"
  "service_calls (ServiceCall s b m p a # es) = (s, b, m, p) # service_calls es"
  "service_calls (map ConsoleError logs) = []"
  "service_calls (SetItem v ok # es) = service_calls es"
  "service_calls (ConsoleError e # es) = service_calls es"
  "service_calls (RemoveItem # es) = service_calls es"
  by (induction logs) (simp_all add: service_calls_def)

lemma storage_writes_simps [simp]:
  "storage_writes [] = []"
  "storage_writes (ServiceCall s b m p a # es) = storage_writes es"
  "storage_writes (map ConsoleError logs) = []"
  "storage_writes (SetItem v ok # es) = (v, ok) # storage_writes es"
  "storage_writes (ConsoleError e # es) = storage_writes es"
  "storage_writes (RemoveItem # es) = storage_writes es"
  by (induction logs) (simp_all add: storage_writes_def)

lemma upt_0_Suc_shift: "[0..<Suc m] = 0 # map Suc [0..<m]"
  by (simp add: upt_conv_Cons map_Suc_upt del: upt_Suc)

lemma edit_loop_shape:
  "i \<le> length images \<Longrightarrow> editedImages (app w) = results \<Longrightarrow>
   progress (app w) = Some \<lparr>current = i, total = length images\<rparr> \<Longrightarrow>
   \<exists>R E. edit_loop env images p i results w =
       (results @ R,
        \<lparr>app = (app w)\<lparr>editedImages := results @ R,
                        progress := Some \<lparr>current = length images, total = length images\<rparr>\<rparr>,
         storage = storage w, effects = effects w @ E\<rparr>)
     \<and> map originalUrl R = map url (drop i images)
     \<and> list_all exactly_one R
     \<and> storage_writes E = []
     \<and> service_calls E = map (edit_request p) (drop i images)
     \<and> screens E = map (\<lambda>k. (app w)\<lparr>editedImages := results @ take k R,
                       progress := Some \<lparr>current = i + k, total = length images\<rparr>\<rparr>)
                     [0..<length images - i]"
proof (induction env images p i results w rule: edit_loop.induct)
  case (1 env images p i results w)
  show ?case
  proof (cases "i < length images")
    case False
    with "1.prems" have i: "i = length images" by simp
    have "edit_loop env images p i results w = (results, w)"
      using False by (simp add: edit_loop.simps)
    moreover have "w = \<lparr>app = (app w)\<lparr>editedImages := results @ [],
                        progress := Some \<lparr>current = length images, total = length images\<rparr>\<rparr>,
         storage = storage w, effects = effects w @ []\<rparr>"
      using "1.prems" i by simp
    ultimately have "edit_loop env images p i results w =
       (results @ [],
        \<lparr>app = (app w)\<lparr>editedImages := results @ [],
                        progress := Some \<lparr>current = length images, total = length images\<rparr>\<rparr>,
         storage = storage w, effects = effects w @ []\<rparr>)"
      by simp
    then show ?thesis using i
      by (intro exI[of _ "[]"] conjI) simp_all
  next
    case True
    let ?b = "at (split CHR '','' (url (images ! i))) 1" and ?m = "type (sourceFile (images ! i))"
    obtain r logs where
      item: "edit_item env images p i results w =
        (results @ [r],
         \<lparr>app = (app w)\<lparr>editedImages := results @ [r],
                        progress := Some \<lparr>current = i + 1, total = length images\<rparr>\<rparr>,
          storage = storage w,
          effects = effects w @ ServiceCall EditImage ?b ?m p (app w) # map ConsoleError logs\<rparr>)"
      and r: "originalUrl r = url (images ! i)" "exactly_one r"
      using edit_item_shape by blast
    define w1 where "w1 = \<lparr>app = (app w)\<lparr>editedImages := results @ [r],
                        progress := Some \<lparr>current = i + 1, total = length images\<rparr>\<rparr>,
          storage = storage w,
          effects = effects w @ ServiceCall EditImage ?b ?m p (app w) # map ConsoleError logs\<rparr>"
    have item': "edit_item env images p i results w = (results @ [r], w1)"
      using item by (simp add: w1_def)
    have "\<exists>R E. edit_loop env images p (i + 1) (results @ [r]) w1 =
       ((results @ [r]) @ R,
        \<lparr>app = (app w1)\<lparr>editedImages := (results @ [r]) @ R,
                        progress := Some \<lparr>current = length images, total = length images\<rparr>\<rparr>,
         storage = storage w1, effects = effects w1 @ E\<rparr>)
     \<and> map originalUrl R = map url (drop (i + 1) images)
     \<and> list_all exactly_one R
     \<and> storage_writes E = []
     \<and> service_calls E = map (edit_request p) (drop (i + 1) images)
     \<and> screens E = map (\<lambda>k. (app w1)\<lparr>editedImages := (results @ [r]) @ take k R,
                       progress := Some \<lparr>current = (i + 1) + k, total = length images\<rparr>\<rparr>)
                     [0..<length images - (i + 1)]"
      using True by (intro "1.IH"[OF True item'[symmetric]]) (simp_all add: w1_def)
    then obtain R E where
      loop: "edit_loop env images p (i + 1) (results @ [r]) w1 =
       ((results @ [r]) @ R,
        \<lparr>app = (app w1)\<lparr>editedImages := (results @ [r]) @ R,
                        progress := Some \<lparr>current = length images, total = length images\<rparr>\<rparr>,
         storage = storage w1, effects = effects w1 @ E\<rparr>)"
      and urls: "map originalUrl R = map url (drop (i + 1) images)"
      and ones: "list_all exactly_one R"
      and writes: "storage_writes E = []"
      and calls: "service_calls E = map (edit_request p) (drop (i + 1) images)"
      and scr: "screens E = map (\<lambda>k. (app w1)\<lparr>editedImages := (results @ [r]) @ take k R,
                       progress := Some \<lparr>current = (i + 1) + k, total = length images\<rparr>\<rparr>)
                     [0..<length images - (i + 1)]"
      by blast
    let ?E = "ServiceCall EditImage ?b ?m p (app w) # map ConsoleError logs @ E"
    have drop: "drop i images = images ! i # drop (i + 1) images"
      using True by (simp add: Cons_nth_drop_Suc)
    have len: "length images - i = Suc (length images - (i + 1))"
      using True by simp
    have here: "(app w)\<lparr>editedImages := results,
                 progress := Some \<lparr>current = i, total = length images\<rparr>\<rparr> = app w"
      using "1.prems" by simp
    have "edit_loop env images p i results w =
       (results @ (r # R),
        \<lparr>app = (app w)\<lparr>editedImages := results @ (r # R),
                        progress := Some \<lparr>current = length images, total = length images\<rparr>\<rparr>,
         storage = storage w, effects = effects w @ ?E\<rparr>)"
    proof -
      have "edit_loop env images p i results w = edit_loop env images p (i + 1) (results @ [r]) w1"
        by (subst edit_loop.simps) (simp only: True if_True item' prod.case)
      then show ?thesis unfolding loop by (simp add: w1_def)
    qed
    moreover have "map originalUrl (r # R) = map url (drop i images)"
      using urls r drop by simp
    moreover have "list_all exactly_one (r # R)"
      using ones r by simp
    moreover have "storage_writes ?E = []"
      using writes by simp
    moreover have "service_calls ?E = map (edit_request p) (drop i images)"
      using calls drop by (simp add: edit_request_def)
    moreover have "screens ?E = map (\<lambda>k. (app w)\<lparr>editedImages := results @ take k (r # R),
                       progress := Some \<lparr>current = i + k, total = length images\<rparr>\<rparr>)
                     [0..<length images - i]"
      unfolding len upt_0_Suc_shift using scr here by (simp add: w1_def comp_def)
    ultimately show ?thesis by blast
  qed
qed



section \<open>A generate run in edit mode\<close>

lemma generate_edit_shape:
  assumes "mode (app w) = Edit" and "originalImages (app w) \<noteq> []" and "prompt (app w) \<noteq> []"
  shows "\<exists>R E. handleGenerate env w =
       \<lparr>app = (app w)\<lparr>isLoading := False, errorState := None, analysisResult := None,
                        editedImages := R,
                        progress := Some \<lparr>current = length (originalImages (app w)),
                                          total = length (originalImages (app w))\<rparr>\<rparr>,
        storage = (if setItem_throws env (JSON_stringify env R) then storage w
                   else Some (JSON_stringify env R)),
        effects = effects w @ E @
                  (if setItem_throws env (JSON_stringify env R)
                   then [SetItem (JSON_stringify env R) False, ConsoleError FailedToSave]
                   else [SetItem (JSON_stringify env R) True])\<rparr>
     \<and> map originalUrl R = map url (originalImages (app w))
     \<and> list_all exactly_one R
     \<and> storage_writes E = []
     \<and> service_calls E = map (edit_request (prompt (app w))) (originalImages (app w))
     \<and> screens E = map (\<lambda>k. (app w)\<lparr>isLoading := True, errorState := None,
                       analysisResult := None, editedImages := take k R,
                       progress := Some \<lparr>current = k, total = length (originalImages (app w))\<rparr>\<rparr>)
                     [0..<length (originalImages (app w))]"
proof -
  let ?images = "originalImages (app w)" and ?p = "prompt (app w)"
  define w1 where "w1 = setProgress (Some \<lparr>current = 0, total = length ?images\<rparr>)
                      (setAnalysisResult None (setEditedImages []
                        (setError None (setIsLoading True w))))"
  have w1: "app w1 = (app w)\<lparr>isLoading := True, errorState := None, analysisResult := None,
                        editedImages := [], progress := Some \<lparr>current = 0, total = length ?images\<rparr>\<rparr>"
    "storage w1 = storage w" "effects w1 = effects w"
    by (simp_all add: w1_def setters)
  have "\<exists>R E. edit_loop env ?images ?p 0 [] w1 =
       ([] @ R,
        \<lparr>app = (app w1)\<lparr>editedImages := [] @ R,
                        progress := Some \<lparr>current = length ?images, total = length ?images\<rparr>\<rparr>,
         storage = storage w1, effects = effects w1 @ E\<rparr>)
     \<and> map originalUrl R = map url (drop 0 ?images)
     \<and> list_all exactly_one R
     \<and> storage_writes E = []
     \<and> service_calls E = map (edit_request ?p) (drop 0 ?images)
     \<and> screens E = map (\<lambda>k. (app w1)\<lparr>editedImages := [] @ take k R,
                       progress := Some \<lparr>current = 0 + k, total = length ?images\<rparr>\<rparr>)
                     [0..<length ?images - 0]"
    by (rule edit_loop_shape) (simp_all add: w1)
  then obtain R E where
    loop: "edit_loop env ?images ?p 0 [] w1 =
       (R, \<lparr>app = (app w1)\<lparr>editedImages := R,
                        progress := Some \<lparr>current = length ?images, total = length ?images\<rparr>\<rparr>,
         storage = storage w1, effects = effects w1 @ E\<rparr>)"
    and urls: "map originalUrl R = map url ?images"
    and ones: "list_all exactly_one R"
    and writes: "storage_writes E = []"
    and calls: "service_calls E = map (edit_request ?p) ?images"
    and scr: "screens E = map (\<lambda>k. (app w1)\<lparr>editedImages := take k R,
                       progress := Some \<lparr>current = k, total = length ?images\<rparr>\<rparr>)
                     [0..<length ?images]"
    by auto
  from urls assms(2) have R: "R \<noteq> []" by auto
  have "handleGenerate env w =
       \<lparr>app = (app w)\<lparr>isLoading := False, errorState := None, analysisResult := None,
                        editedImages := R,
                        progress := Some \<lparr>current = length ?images, total = length ?images\<rparr>\<rparr>,
        storage = (if setItem_throws env (JSON_stringify env R) then storage w
                   else Some (JSON_stringify env R)),
        effects = effects w @ E @
                  (if setItem_throws env (JSON_stringify env R)
                   then [SetItem (JSON_stringify env R) False, ConsoleError FailedToSave]
                   else [SetItem (JSON_stringify env R) True])\<rparr>"
    unfolding handleGenerate_def Let_def w1_def[symmetric] loop
    using assms R by (simp add: w1 setItem_def setters)
  moreover have "screens E = map (\<lambda>k. (app w)\<lparr>isLoading := True, errorState := None,
                       analysisResult := None, editedImages := take k R,
                       progress := Some \<lparr>current = k, total = length ?images\<rparr>\<rparr>)
                     [0..<length ?images]"
    unfolding scr by (simp add: w1)
  ultimately show ?thesis using urls ones writes calls by blast
qed

section \<open>A generate run in analyze mode\<close>

lemma generate_analyze_shape:
  assumes "mode (app w) = Analyze" and "originalImages (app w) \<noteq> []" and "prompt (app w) \<noteq> []"
  shows "handleGenerate env w =
       \<lparr>app = (app w)\<lparr>isLoading := False, editedImages := [],
                        progress := Some \<lparr>current = 0, total = length (originalImages (app w))\<rparr>,
                        analysisResult :=
                          (case genai env (effects w) AnalyzeImage
                                  (at (split CHR '','' (url (originalImages (app w) ! 0))) 1)
                                  (type (sourceFile (originalImages (app w) ! 0))) (prompt (app w)) of
                             Resolves response \<Rightarrow> responseText response
                           | GenerateContentThrows t \<Rightarrow> None
                           | ConstructorThrows t \<Rightarrow> None),
                        errorState :=
                          (case genai env (effects w) AnalyzeImage
                                  (at (split CHR '','' (url (originalImages (app w) ! 0))) 1)
                                  (type (sourceFile (originalImages (app w) ! 0))) (prompt (app w)) of
                             Resolves response \<Rightarrow> None
                           | GenerateContentThrows t \<Rightarrow> Some analysis_failure_message
                           | ConstructorThrows t \<Rightarrow>
                               Some (case t of Error m \<Rightarrow> m
                                     | NonError \<Rightarrow> ''An unknown error occurred during analysis.''))\<rparr>,
        storage = storage w,
        effects = effects w @
          ServiceCall AnalyzeImage (at (split CHR '','' (url (originalImages (app w) ! 0))) 1)
            (type (sourceFile (originalImages (app w) ! 0))) (prompt (app w))
            ((app w)\<lparr>isLoading := True, errorState := None, analysisResult := None,
                      editedImages := [],
                      progress := Some \<lparr>current = 0, total = length (originalImages (app w))\<rparr>\<rparr>)
          # (case genai env (effects w) AnalyzeImage
                    (at (split CHR '','' (url (originalImages (app w) ! 0))) 1)
                    (type (sourceFile (originalImages (app w) ! 0))) (prompt (app w)) of
               Resolves response \<Rightarrow> []
             | GenerateContentThrows t \<Rightarrow> [ConsoleError GeminiAnalysisError]
             | ConstructorThrows t \<Rightarrow> [])\<rparr>"
  using assms
  by (cases "genai env (effects w) AnalyzeImage
               (at (split CHR '','' (url (originalImages (app w) ! 0))) 1)
               (type (sourceFile (originalImages (app w) ! 0))) (prompt (app w))")
     (simp_all add: handleGenerate_def analyzeImageWithPrompt_def setters Let_def)

section \<open>The storage\<close>

lemma edit_item_setItem_throws [simp]:
  "edit_item (env\<lparr>setItem_throws := f\<rparr>) images p i results w = edit_item env images p i results w"
  by (simp add: edit_item_def editImageWithPrompt_def)

lemma edit_loop_setItem_throws:
  "edit_loop (env\<lparr>setItem_throws := f\<rparr>) images p i results w = edit_loop env images p i results w"
proof (induction env images p i results w rule: edit_loop.induct)
  case (1 env images p i results w)
  show ?case
  proof (cases "i < length images")
    case True
    obtain rs w' where item: "edit_item env images p i results w = (rs, w')"
      by (cases "edit_item env images p i results w")
    have "edit_loop (env\<lparr>setItem_throws := f\<rparr>) images p i results w
            = edit_loop (env\<lparr>setItem_throws := f\<rparr>) images p (i + 1) rs w'"
      by (subst edit_loop.simps) (simp only: True if_True edit_item_setItem_throws item prod.case)
    also have "\<dots> = edit_loop env images p (i + 1) rs w'"
      by (rule "1.IH"[OF True item[symmetric]])
    also have "\<dots> = edit_loop env images p i results w"
      by (subst (2) edit_loop.simps) (simp only: True if_True item prod.case)
    finally show ?thesis .
  next
    case False
    then show ?thesis by (simp add: edit_loop.simps)
  qed
qed

lemma handleGenerate_app_setItem_throws:
  "app (handleGenerate (env\<lparr>setItem_throws := f\<rparr>) w) = app (handleGenerate env w)"
  by (simp add: handleGenerate_def Let_def edit_loop_setItem_throws analyzeImageWithPrompt_def
                setItem_def setters
           split: prod.split sum.split sdk_outcome.split)

lemma other_steps_write_nothing:
  "a \<noteq> Generate \<Longrightarrow> storage_writes (new_effects w (step env a w)) = []"
  by (cases a)
     (simp_all add: new_effects_def loadSession_def handleModeChange_def handleImagesSelect_def
                    handleRemoveImage_def handleClearImages_def setters Let_def
               split: option.split parsed.split)

section \<open>The claims\<close>

text \<open>
  C1. In edit mode, with a non-empty selection (and the non-empty prompt that lets the run
  start), the finished run leaves one outcome per selected image: the outcome list is as
  long as the selection, the i-th outcome carries the data URL of the i-th image, and the
  edit service was called once for every image, in selection order, whatever the platform
  answered. No failure of a call ends the loop early.
\<close>

theorem edit_run_one_outcome_per_image:
  assumes "mode (app w) = Edit" and "originalImages (app w) \<noteq> []" and "prompt (app w) \<noteq> []"
  shows "length (editedImages (app (handleGenerate env w))) = length (originalImages (app w))
       \<and> map originalUrl (editedImages (app (handleGenerate env w)))
           = map url (originalImages (app w))
       \<and> service_calls (new_effects w (handleGenerate env w))
           = map (edit_request (prompt (app w))) (originalImages (app w))"
proof -
  from generate_edit_shape[OF assms, of env] obtain R E where
    run: "handleGenerate env w =
       \<lparr>app = (app w)\<lparr>isLoading := False, errorState := None, analysisResult := None,
                        editedImages := R,
                        progress := Some \<lparr>current = length (originalImages (app w)),
                                          total = length (originalImages (app w))\<rparr>\<rparr>,
        storage = (if setItem_throws env (JSON_stringify env R) then storage w
                   else Some (JSON_stringify env R)),
        effects = effects w @ E @
                  (if setItem_throws env (JSON_stringify env R)
                   then [SetItem (JSON_stringify env R) False, ConsoleError FailedToSave]
                   else [SetItem (JSON_stringify env R) True])\<rparr>"
    and urls: "map originalUrl R = map url (originalImages (app w))"
    and calls: "service_calls E = map (edit_request (prompt (app w))) (originalImages (app w))"
    by blast
  have "length R = length (originalImages (app w))"
    using urls by (metis length_map)
  moreover have "service_calls (new_effects w (handleGenerate env w))
           = map (edit_request (prompt (app w))) (originalImages (app w))"
    unfolding run by (simp add: new_effects_def calls)
  ultimately show ?thesis unfolding run using urls by simp
qed

theorem edit_run_one_outcome_per_image_witness:
  "mode (app edit_world) = Edit \<and> originalImages (app edit_world) \<noteq> []
   \<and> prompt (app edit_world) \<noteq> []
   \<and> length (editedImages (app (handleGenerate sample_platform edit_world))) = 3
   \<and> map originalUrl (editedImages (app (handleGenerate sample_platform edit_world)))
       = [''data:image/png;base64,AAAA'', ''data:image/png;base64,BBBB'',
          ''data:image/png;base64,CCCC'']
   \<and> service_calls (new_effects edit_world (handleGenerate sample_platform edit_world))
       = [(EditImage, Some ''AAAA'', ''image/png'', ''Remove the background''),
          (EditImage, Some ''BBBB'', ''image/png'', ''Remove the background''),
          (EditImage, Some ''CCCC'', ''image/png'', ''Remove the background'')]"
  using edit_run_one_outcome_per_image[of edit_world sample_platform]
  by (simp add: edit_world_def initial_app_def png_def edit_request_def at_def)


text \<open>
  C2. Every outcome of a finished edit-mode run has its edited image or its error
  message, never both and never neither.
\<close>

theorem edit_run_outcome_has_exactly_one:
  assumes "mode (app w) = Edit" and "originalImages (app w) \<noteq> []" and "prompt (app w) \<noteq> []"
  shows "\<forall>r \<in> set (editedImages (app (handleGenerate env w))).
           (editedUrl r \<noteq> None \<and> error r = None) \<or> (editedUrl r = None \<and> error r \<noteq> None)"
proof -
  from generate_edit_shape[OF assms, of env] obtain R E where
    run: "handleGenerate env w =
       \<lparr>app = (app w)\<lparr>isLoading := False, errorState := None, analysisResult := None,
                        editedImages := R,
                        progress := Some \<lparr>current = length (originalImages (app w)),
                                          total = length (originalImages (app w))\<rparr>\<rparr>,
        storage = (if setItem_throws env (JSON_stringify env R) then storage w
                   else Some (JSON_stringify env R)),
        effects = effects w @ E @
                  (if setItem_throws env (JSON_stringify env R)
                   then [SetItem (JSON_stringify env R) False, ConsoleError FailedToSave]
                   else [SetItem (JSON_stringify env R) True])\<rparr>"
    and ones: "list_all exactly_one R"
    by blast
  have "editedImages (app (handleGenerate env w)) = R"
    unfolding run by simp
  with ones show ?thesis
    by (auto simp: list_all_iff exactly_one_def)
qed

theorem edit_run_outcome_has_exactly_one_witness:
  "mode (app edit_world) = Edit \<and> originalImages (app edit_world) \<noteq> []
   \<and> prompt (app edit_world) \<noteq> []
   \<and> map editedUrl (editedImages (app (handleGenerate sample_platform edit_world)))
       = [Some ''data:image/png;base64,XXXX'', None, Some ''data:image/png;base64,XXXX'']
   \<and> map error (editedImages (app (handleGenerate sample_platform edit_world)))
       = [None, Some edit_failure_message, None]"
proof -
  have "editedImages (app (handleGenerate sample_platform edit_world))
     = [\<lparr>originalUrl = ''data:image/png;base64,AAAA'',
         editedUrl = Some ''data:image/png;base64,XXXX'', error = None\<rparr>,
        \<lparr>originalUrl = ''data:image/png;base64,BBBB'', editedUrl = None,
         error = Some edit_failure_message\<rparr>,
        \<lparr>originalUrl = ''data:image/png;base64,CCCC'',
         editedUrl = Some ''data:image/png;base64,XXXX'', error = None\<rparr>]"
    by (simp add: handleGenerate_def edit_world_def sample_platform_def png_def initial_app_def
        edit_loop.simps edit_item_def editImageWithPrompt_def at_def setItem_def setters
        image_response_def response_parts_def part_data_def Let_def)
  then show ?thesis
    using edit_run_outcome_has_exactly_one[of edit_world sample_platform]
    by (simp add: edit_world_def initial_app_def)
qed

text \<open>
  C3. During an edit-mode run over n images the progress on screen is 0 of n during the
  first call, 1 of n during the second, and so on, and n of n when the run ends: the
  completed count goes up by one after each item, whether the item succeeded or failed,
  it never goes down, and at the end it equals the total.
\<close>

theorem edit_run_progress:
  assumes "mode (app w) = Edit" and "originalImages (app w) \<noteq> []" and "prompt (app w) \<noteq> []"
  shows "progress_trace w (handleGenerate env w)
           = map (\<lambda>k. Some \<lparr>current = k, total = length (originalImages (app w))\<rparr>)
               [0..<Suc (length (originalImages (app w)))]
       \<and> sorted (map (\<lambda>q. current (the q)) (progress_trace w (handleGenerate env w)))
       \<and> progress (app (handleGenerate env w))
           = Some \<lparr>current = length (originalImages (app w)),
                   total = length (originalImages (app w))\<rparr>"
proof -
  let ?n = "length (originalImages (app w))"
  from generate_edit_shape[OF assms, of env] obtain R E where
    run: "handleGenerate env w =
       \<lparr>app = (app w)\<lparr>isLoading := False, errorState := None, analysisResult := None,
                        editedImages := R,
                        progress := Some \<lparr>current = ?n, total = ?n\<rparr>\<rparr>,
        storage = (if setItem_throws env (JSON_stringify env R) then storage w
                   else Some (JSON_stringify env R)),
        effects = effects w @ E @
                  (if setItem_throws env (JSON_stringify env R)
                   then [SetItem (JSON_stringify env R) False, ConsoleError FailedToSave]
                   else [SetItem (JSON_stringify env R) True])\<rparr>"
    and scr: "screens E = map (\<lambda>k. (app w)\<lparr>isLoading := True, errorState := None,
                       analysisResult := None, editedImages := take k R,
                       progress := Some \<lparr>current = k, total = ?n\<rparr>\<rparr>) [0..<?n]"
    by blast
  have "screens (new_effects w (handleGenerate env w)) = screens E"
    unfolding run by (simp add: new_effects_def)
  then have trace: "progress_trace w (handleGenerate env w)
           = map (\<lambda>k. Some \<lparr>current = k, total = ?n\<rparr>) [0..<Suc ?n]"
    unfolding progress_trace_def scr by (simp add: run comp_def)
  have "map (\<lambda>q. current (the q)) (map (\<lambda>k. Some \<lparr>current = k, total = ?n\<rparr>) [0..<Suc ?n])
          = [0..<Suc ?n]"
    by (simp add: comp_def del: upt_Suc)
  then have "sorted (map (\<lambda>q. current (the q)) (progress_trace w (handleGenerate env w)))"
    unfolding trace by (simp del: upt_Suc)
  moreover have "progress (app (handleGenerate env w)) = Some \<lparr>current = ?n, total = ?n\<rparr>"
    unfolding run by simp
  ultimately show ?thesis using trace by blast
qed

theorem edit_run_progress_witness:
  "mode (app edit_world) = Edit \<and> originalImages (app edit_world) \<noteq> []
   \<and> prompt (app edit_world) \<noteq> []
   \<and> progress_trace edit_world (handleGenerate sample_platform edit_world)
       = [Some \<lparr>current = 0, total = 3\<rparr>, Some \<lparr>current = 1, total = 3\<rparr>,
          Some \<lparr>current = 2, total = 3\<rparr>, Some \<lparr>current = 3, total = 3\<rparr>]
   \<and> progress (app (handleGenerate sample_platform edit_world))
       = Some \<lparr>current = 3, total = 3\<rparr>"
  using edit_run_progress[of edit_world sample_platform]
  by (simp add: edit_world_def initial_app_def upt_rec)




text \<open>
  C10. A run that starts (an image selected, a prompt given) makes at least one service
  call, and during every call of the run the screen shows no analysis result, no banner,
  and exactly the outcomes the run has produced so far: during its k-th call (counted
  from 0) the first k of the outcomes it ends with, so none during the first call.
  Nothing of an earlier run is on screen while the new one works.
\<close>

theorem generate_clears_before_first_call:
  assumes "originalImages (app w) \<noteq> []" and "prompt (app w) \<noteq> []"
  shows "screens (new_effects w (handleGenerate env w)) \<noteq> []
       \<and> (\<forall>k < length (screens (new_effects w (handleGenerate env w))).
            analysisResult (screens (new_effects w (handleGenerate env w)) ! k) = None
          \<and> errorState (screens (new_effects w (handleGenerate env w)) ! k) = None
          \<and> editedImages (screens (new_effects w (handleGenerate env w)) ! k)
              = take k (editedImages (app (handleGenerate env w))))"
proof (cases "mode (app w)")
  case Edit
  let ?n = "length (originalImages (app w))"
  from generate_edit_shape[OF Edit assms, of env] obtain R E where
    run: "handleGenerate env w =
       \<lparr>app = (app w)\<lparr>isLoading := False, errorState := None, analysisResult := None,
                        editedImages := R,
                        progress := Some \<lparr>current = ?n, total = ?n\<rparr>\<rparr>,
        storage = (if setItem_throws env (JSON_stringify env R) then storage w
                   else Some (JSON_stringify env R)),
        effects = effects w @ E @
                  (if setItem_throws env (JSON_stringify env R)
                   then [SetItem (JSON_stringify env R) False, ConsoleError FailedToSave]
                   else [SetItem (JSON_stringify env R) True])\<rparr>"
    and scr: "screens E = map (\<lambda>k. (app w)\<lparr>isLoading := True, errorState := None,
                       analysisResult := None, editedImages := take k R,
                       progress := Some \<lparr>current = k, total = ?n\<rparr>\<rparr>) [0..<?n]"
    by blast
  have "screens (new_effects w (handleGenerate env w)) = screens E"
    unfolding run by (simp add: new_effects_def)
  moreover have "editedImages (app (handleGenerate env w)) = R"
    unfolding run by simp
  ultimately show ?thesis
    using assms(1) by (simp add: scr)
next
  case Analyze
  show ?thesis
    unfolding generate_analyze_shape[OF Analyze assms]
    by (simp add: new_effects_def split: sdk_outcome.split)
qed

theorem generate_clears_before_first_call_witness:
  "originalImages (app rerun_world) \<noteq> [] \<and> prompt (app rerun_world) \<noteq> []
   \<and> editedImages (app rerun_world) \<noteq> []
   \<and> analysisResult (app rerun_world) \<noteq> None \<and> errorState (app rerun_world) \<noteq> None
   \<and> screens (new_effects rerun_world (handleGenerate sample_platform rerun_world)) \<noteq> []
   \<and> analysisResult (screens (new_effects rerun_world
        (handleGenerate sample_platform rerun_world)) ! 0) = None
   \<and> errorState (screens (new_effects rerun_world
        (handleGenerate sample_platform rerun_world)) ! 0) = None
   \<and> editedImages (screens (new_effects rerun_world
        (handleGenerate sample_platform rerun_world)) ! 0) = []"
  using generate_clears_before_first_call[of rerun_world sample_platform]
  by (simp add: rerun_world_def stale_world_def initial_app_def png_def)


text \<open>
  C8. With no image selected, or with an empty prompt, generate only sets the banner to
  the precondition message: it adds nothing to the trace, so it calls no service, and it
  does not touch the loading flag, so a page that was idle stays idle.
\<close>

theorem generate_precondition_failure:
  assumes "originalImages (app w) = [] \<or> prompt (app w) = []"
  shows "new_effects w (handleGenerate env w) = []
       \<and> service_calls (new_effects w (handleGenerate env w)) = []
       \<and> errorState (app (handleGenerate env w)) = Some precondition_message
       \<and> isLoading (app (handleGenerate env w)) = isLoading (app w)
       \<and> handleGenerate env w = w\<lparr>app := (app w)\<lparr>errorState := Some precondition_message\<rparr>\<rparr>"
proof -
  have "handleGenerate env w = setError (Some precondition_message) w"
    using assms by (auto simp: handleGenerate_def Let_def)
  then show ?thesis by (simp add: setError_def)
qed

theorem generate_precondition_failure_witness:
  "(originalImages (app stale_world) = [] \<or> prompt (app stale_world) = [])
   \<and> \<not> isLoading (app stale_world)
   \<and> service_calls (new_effects stale_world (handleGenerate sample_platform stale_world)) = []
   \<and> errorState (app (handleGenerate sample_platform stale_world))
       = Some ''Please upload an image and provide a prompt.''
   \<and> \<not> isLoading (app (handleGenerate sample_platform stale_world))"
  using generate_precondition_failure[of stale_world sample_platform]
  by (simp add: stale_world_def initial_app_def precondition_message_def)

text \<open>
  C9. A mode switch, from any state and to either mode, leaves no image selected, no edit
  outcome, no analysis result, an empty prompt and no banner.
\<close>

theorem mode_change_resets:
  "mode (app (handleModeChange newMode w)) = newMode
   \<and> originalImages (app (handleModeChange newMode w)) = []
   \<and> editedImages (app (handleModeChange newMode w)) = []
   \<and> analysisResult (app (handleModeChange newMode w)) = None
   \<and> prompt (app (handleModeChange newMode w)) = []
   \<and> errorState (app (handleModeChange newMode w)) = None"
  by (simp add: handleModeChange_def setters Let_def)

theorem mode_change_resets_witness:
  "app (handleModeChange Analyze rerun_world)
     = initial_app\<lparr>mode := Analyze\<rparr>"
  using mode_change_resets[of Analyze rerun_world]
  by (simp add: handleModeChange_def setters Let_def rerun_world_def stale_world_def
                initial_app_def)

text \<open>
  C5, as the code has it. Removing an image and clearing the selection reset the edit
  outcomes and the analysis result and remove the stored snapshot. A mode switch resets
  the edit outcomes and the analysis result and clears the banner; it removes the stored
  snapshot when the new mode is analyze, and leaves the storage as it is when the new
  mode is edit.
\<close>

theorem selection_change_resets:
  "editedImages (app (handleRemoveImage indexToRemove w)) = []
   \<and> analysisResult (app (handleRemoveImage indexToRemove w)) = None
   \<and> storage (handleRemoveImage indexToRemove w) = None
   \<and> editedImages (app (handleClearImages w)) = []
   \<and> analysisResult (app (handleClearImages w)) = None
   \<and> storage (handleClearImages w) = None
   \<and> editedImages (app (handleModeChange newMode w)) = []
   \<and> analysisResult (app (handleModeChange newMode w)) = None
   \<and> errorState (app (handleModeChange newMode w)) = None
   \<and> storage (handleModeChange Analyze w) = None
   \<and> storage (handleModeChange Edit w) = storage w"
  by (simp add: handleRemoveImage_def handleClearImages_def handleModeChange_def setters Let_def)

theorem selection_change_resets_witness:
  "storage (handleRemoveImage 0 rerun_world) = None
   \<and> storage (handleClearImages rerun_world) = None
   \<and> storage (handleModeChange Analyze rerun_world) = None
   \<and> storage (handleModeChange Edit rerun_world) = Some ''[]''"
  using selection_change_resets[of 0 rerun_world Edit]
  by (simp add: rerun_world_def stale_world_def)

text \<open>
  C5 as stated fails twice. After an analysis that failed, the banner is up; clearing the
  selection, or removing the image, leaves it up. After an edit run that stored its
  snapshot, pressing the edit-mode button again leaves the snapshot in the storage.
\<close>

theorem selection_change_resets_counterexample:
  "errorState (app (handleGenerate offline_platform analyze_world)) = Some analysis_failure_message
   \<and> errorState (app (handleClearImages (handleGenerate offline_platform analyze_world)))
       = Some analysis_failure_message
   \<and> errorState (app (handleRemoveImage 0 (handleGenerate offline_platform analyze_world)))
       = Some analysis_failure_message
   \<and> storage (handleGenerate sample_platform edit_world)
       = Some ''[<data:image/png;base64,AAAAdata:image/png;base64,BBBBdata:image/png;base64,CCCC>]''
   \<and> storage (handleModeChange Edit (handleGenerate sample_platform edit_world))
       = Some ''[<data:image/png;base64,AAAAdata:image/png;base64,BBBBdata:image/png;base64,CCCC>]''"
proof -
  have a: "mode (app analyze_world) = Analyze" "originalImages (app analyze_world) \<noteq> []"
    "prompt (app analyze_world) \<noteq> []"
    by (simp_all add: analyze_world_def initial_app_def)
  have "errorState (app (handleGenerate offline_platform analyze_world))
          = Some analysis_failure_message"
    unfolding generate_analyze_shape[OF a]
    by (simp add: offline_platform_def sample_platform_def)
  moreover have e: "mode (app edit_world) = Edit" "originalImages (app edit_world) \<noteq> []"
    "prompt (app edit_world) \<noteq> []"
    by (simp_all add: edit_world_def initial_app_def)
  from generate_edit_shape[OF e, of sample_platform] obtain R where
    "storage (handleGenerate sample_platform edit_world)
       = (if setItem_throws sample_platform (JSON_stringify sample_platform R)
          then storage edit_world else Some (JSON_stringify sample_platform R))"
    and "map originalUrl R = map url (originalImages (app edit_world))"
    by force
  then have "storage (handleGenerate sample_platform edit_world)
       = Some ''[<data:image/png;base64,AAAAdata:image/png;base64,BBBBdata:image/png;base64,CCCC>]''"
    by (simp add: sample_platform_def edit_world_def initial_app_def png_def)
  ultimately show ?thesis
    by (simp add: handleClearImages_def handleRemoveImage_def handleModeChange_def setters Let_def)
qed


text \<open>
  C6, as the code has it. On page load, a stored text that does not parse as an array,
  or whose parsing throws, leaves the outcomes empty, and no load ever sets the banner.
  The stored entry is removed (and the failure logged) when the text is not empty and
  parsing it throws.
\<close>

theorem load_session_malformed:
  "(\<not> parses_as_array env v \<longrightarrow>
       editedImages (app (loadSession env (initial_world (Some v)))) = [])
   \<and> (v \<noteq> [] \<and> JSON_parse env v = None \<longrightarrow>
       storage (loadSession env (initial_world (Some v))) = None
       \<and> effects (loadSession env (initial_world (Some v))) = [ConsoleError FailedToLoad, RemoveItem])
   \<and> errorState (app (loadSession env (initial_world stored))) = None"
  by (simp add: loadSession_def initial_world_def initial_app_def parses_as_array_def setters
           split: option.split parsed.split)

theorem load_session_malformed_witness:
  "\<not> parses_as_array sample_platform ''{oops''
   \<and> ''{oops'' \<noteq> [] \<and> JSON_parse sample_platform ''{oops'' = None
   \<and> editedImages (app (loadSession sample_platform (initial_world (Some ''{oops'')))) = []
   \<and> storage (loadSession sample_platform (initial_world (Some ''{oops''))) = None
   \<and> errorState (app (loadSession sample_platform (initial_world (Some ''{oops'')))) = None"
  using load_session_malformed[of sample_platform "''{oops''" "Some ''{oops''"]
  by (simp add: parses_as_array_def sample_platform_def)

text \<open>
  C6 as stated fails on a stored text that parses, but not to an array: the text
  \<^verbatim>\<open>{}\<close> is an object, the load ignores it, and the entry stays in the storage.
\<close>

theorem load_session_malformed_counterexample:
  "\<not> parses_as_array sample_platform ''{}''
   \<and> editedImages (app (loadSession sample_platform (initial_world (Some ''{}'')))) = []
   \<and> storage (loadSession sample_platform (initial_world (Some ''{}''))) = Some ''{}''"
  by (simp add: parses_as_array_def sample_platform_def loadSession_def initial_world_def
                initial_app_def)

text \<open>
  C7. Of all events of the page only a generate run in edit mode calls
  \<^verbatim>\<open>setItem\<close>, and it calls it once, with the serialised outcome list. That list is
  not empty, and the call is the last thing the run does but for the log line of a
  failure: every service call of the run comes before it. When \<^verbatim>\<open>setItem\<close> throws,
  the failure is logged, the storage keeps what it had and no banner is set. The state
  the run leaves on screen does not depend on whether \<^verbatim>\<open>setItem\<close> throws.
\<close>

theorem snapshot_write:
  "storage_writes (new_effects w (step env a w))
     = (if a = Generate \<and> mode (app w) = Edit \<and> originalImages (app w) \<noteq> [] \<and> prompt (app w) \<noteq> []
        then [(JSON_stringify env (editedImages (app (handleGenerate env w))),
               \<not> setItem_throws env (JSON_stringify env (editedImages (app (handleGenerate env w)))))]
        else [])
   \<and> (mode (app w) = Edit \<and> originalImages (app w) \<noteq> [] \<and> prompt (app w) \<noteq> [] \<longrightarrow>
        editedImages (app (handleGenerate env w)) \<noteq> []
        \<and> (\<exists>E. new_effects w (handleGenerate env w)
                  = E @ (if setItem_throws env (JSON_stringify env (editedImages (app (handleGenerate env w))))
                         then [SetItem (JSON_stringify env (editedImages (app (handleGenerate env w)))) False,
                               ConsoleError FailedToSave]
                         else [SetItem (JSON_stringify env (editedImages (app (handleGenerate env w)))) True])
              \<and> storage_writes E = []
              \<and> service_calls E = service_calls (new_effects w (handleGenerate env w)))
        \<and> (setItem_throws env (JSON_stringify env (editedImages (app (handleGenerate env w)))) \<longrightarrow>
             storage (handleGenerate env w) = storage w
             \<and> errorState (app (handleGenerate env w)) = None))
   \<and> app (handleGenerate (env\<lparr>setItem_throws := f\<rparr>) w) = app (handleGenerate env w)"
proof -
  have edit: "storage_writes (new_effects w (handleGenerate env w))
        = [(JSON_stringify env (editedImages (app (handleGenerate env w))),
            \<not> setItem_throws env (JSON_stringify env (editedImages (app (handleGenerate env w)))))]
      \<and> editedImages (app (handleGenerate env w)) \<noteq> []
      \<and> (\<exists>E. new_effects w (handleGenerate env w)
                  = E @ (if setItem_throws env (JSON_stringify env (editedImages (app (handleGenerate env w))))
                         then [SetItem (JSON_stringify env (editedImages (app (handleGenerate env w)))) False,
                               ConsoleError FailedToSave]
                         else [SetItem (JSON_stringify env (editedImages (app (handleGenerate env w)))) True])
              \<and> storage_writes E = []
              \<and> service_calls E = service_calls (new_effects w (handleGenerate env w)))
      \<and> (setItem_throws env (JSON_stringify env (editedImages (app (handleGenerate env w)))) \<longrightarrow>
             storage (handleGenerate env w) = storage w
             \<and> errorState (app (handleGenerate env w)) = None)"
    if pre: "mode (app w) = Edit" "originalImages (app w) \<noteq> []" "prompt (app w) \<noteq> []"
  proof -
    from generate_edit_shape[OF pre, of env] obtain R E where
      run: "handleGenerate env w =
         \<lparr>app = (app w)\<lparr>isLoading := False, errorState := None, analysisResult := None,
                          editedImages := R,
                          progress := Some \<lparr>current = length (originalImages (app w)),
                                            total = length (originalImages (app w))\<rparr>\<rparr>,
          storage = (if setItem_throws env (JSON_stringify env R) then storage w
                     else Some (JSON_stringify env R)),
          effects = effects w @ E @
                    (if setItem_throws env (JSON_stringify env R)
                     then [SetItem (JSON_stringify env R) False, ConsoleError FailedToSave]
                     else [SetItem (JSON_stringify env R) True])\<rparr>"
      and urls: "map originalUrl R = map url (originalImages (app w))"
      and writes: "storage_writes E = []"
      by blast
    from urls pre(2) have R: "R \<noteq> []" by auto
    have new: "new_effects w (handleGenerate env w)
        = E @ (if setItem_throws env (JSON_stringify env R)
               then [SetItem (JSON_stringify env R) False, ConsoleError FailedToSave]
               else [SetItem (JSON_stringify env R) True])"
      unfolding run by (simp add: new_effects_def)
    have ed: "editedImages (app (handleGenerate env w)) = R"
      unfolding run by simp
    have "\<exists>E'. new_effects w (handleGenerate env w)
                  = E' @ (if setItem_throws env (JSON_stringify env R)
                          then [SetItem (JSON_stringify env R) False, ConsoleError FailedToSave]
                          else [SetItem (JSON_stringify env R) True])
              \<and> storage_writes E' = []
              \<and> service_calls E' = service_calls (new_effects w (handleGenerate env w))"
      by (rule exI[of _ E]) (simp add: new writes)
    moreover have "storage_writes (new_effects w (handleGenerate env w))
        = [(JSON_stringify env R, \<not> setItem_throws env (JSON_stringify env R))]"
      by (simp add: new writes)
    moreover have "setItem_throws env (JSON_stringify env R) \<longrightarrow>
             storage (handleGenerate env w) = storage w
             \<and> errorState (app (handleGenerate env w)) = None"
      unfolding run by simp
    ultimately show ?thesis
      unfolding ed using R by blast
  qed
  have "storage_writes (new_effects w (step env a w)) = []"
    if "\<not> (a = Generate \<and> mode (app w) = Edit \<and> originalImages (app w) \<noteq> [] \<and> prompt (app w) \<noteq> [])"
  proof (cases "a = Generate")
    case False
    then show ?thesis by (rule other_steps_write_nothing)
  next
    case True
    show ?thesis
    proof (cases "originalImages (app w) = [] \<or> prompt (app w) = []")
      case True
      with \<open>a = Generate\<close> show ?thesis
        by (auto simp: handleGenerate_def Let_def setError_def)
    next
      case False
      with that \<open>a = Generate\<close> have "mode (app w) = Analyze"
        by (cases "mode (app w)") auto
      with False \<open>a = Generate\<close> show ?thesis
        by (simp add: generate_analyze_shape new_effects_def split: sdk_outcome.split)
    qed
  qed
  with edit show ?thesis
    by (simp add: handleGenerate_app_setItem_throws)
qed

theorem snapshot_write_witness:
  "mode (app edit_world) = Edit \<and> originalImages (app edit_world) \<noteq> []
   \<and> prompt (app edit_world) \<noteq> []
   \<and> setItem_throws full_storage_platform (JSON_stringify full_storage_platform
        (editedImages (app (handleGenerate full_storage_platform edit_world))))
   \<and> storage_writes (new_effects edit_world (step full_storage_platform Generate edit_world))
       = [(JSON_stringify full_storage_platform
             (editedImages (app (handleGenerate full_storage_platform edit_world))), False)]
   \<and> editedImages (app (handleGenerate full_storage_platform edit_world)) \<noteq> []
   \<and> storage (handleGenerate full_storage_platform edit_world) = None
   \<and> errorState (app (handleGenerate full_storage_platform edit_world)) = None
   \<and> app (handleGenerate sample_platform edit_world)
       = app (handleGenerate full_storage_platform edit_world)"
proof -
  have pre: "mode (app edit_world) = Edit" "originalImages (app edit_world) \<noteq> []"
    "prompt (app edit_world) \<noteq> []" "storage edit_world = None"
    by (simp_all add: edit_world_def initial_app_def)
  have full: "setItem_throws full_storage_platform v" for v
    by (simp add: full_storage_platform_def)
  have same: "full_storage_platform\<lparr>setItem_throws := \<lambda>v. False\<rparr> = sample_platform"
    by (simp add: full_storage_platform_def sample_platform_def)
  show ?thesis
    using snapshot_write[of edit_world full_storage_platform Generate "\<lambda>v. False"] pre full
    by (simp add: same)
qed

end
